theory Spec2Isabelle
  imports Complex_Main
begin

section \<open>Monte Carlo portfolio simulator\<close>

text \<open>
  A shallow embedding of \<^verbatim>\<open>portfolio_monte_carlo.py\<close>.

  Numbers. The program computes with Python floats (and a few ints that are converted
  to float on their first contact with one). The functions below are polymorphic in
  the number type and ask only for the operations they use. A theorem stated for a
  type with nothing but the operations (\<open>zero\<close>, \<open>plus\<close>, \<open>times\<close>, \<open>ord\<close>) uses no
  law of arithmetic; a theorem stated for a \<open>field\<close> or \<open>linordered_field\<close> is a
  theorem of exact arithmetic, which floating point follows up to rounding only.

  Exceptions. A raised exception is the \<open>Inl\<close> of a sum type.
\<close>

subsection \<open>Exceptions\<close>

text \<open>
  Python exception classes: the built-in ones that a statement of the program can
  raise, and a class defined by a program, by its name. The source defines no
  exception class and has no \<^verbatim>\<open>raise\<close> statement.
\<close>

datatype exn = TypeError | ZeroDivisionError | IndexError | KeyError | UserDefined string

subsection \<open>\<^verbatim>\<open>growth_probability\<close> (lines 100-140)\<close>

text \<open>
  The three counting loops. \<open>count\<close> is the accumulator the source starts at 0 and
  increments.
\<close>

fun count_below :: "'a::ord list \<Rightarrow> 'a \<Rightarrow> nat \<Rightarrow> nat" where
  "count_below [] max_growth_pct count = count"
| "count_below (growth # rest) max_growth_pct count =
     count_below rest max_growth_pct (if growth < max_growth_pct then count + 1 else count)"

fun count_above :: "'a::ord list \<Rightarrow> 'a \<Rightarrow> nat \<Rightarrow> nat" where
  "count_above [] min_growth_pct count = count"
| "count_above (growth # rest) min_growth_pct count =
     count_above rest min_growth_pct (if growth > min_growth_pct then count + 1 else count)"

text \<open>
  The loop of the \<^verbatim>\<open>else\<close> branch evaluates the chained comparison
  \<^verbatim>\<open>min_growth_pct < growth < max_growth_pct\<close>: first \<^verbatim>\<open>min_growth_pct < growth\<close>,
  and only when that is true \<^verbatim>\<open>growth < max_growth_pct\<close>. Comparing \<^verbatim>\<open>None\<close>
  with a number raises \<^verbatim>\<open>TypeError\<close>.
\<close>

fun count_between :: "'a::ord list \<Rightarrow> 'a option \<Rightarrow> 'a option \<Rightarrow> nat \<Rightarrow> exn + nat" where
  "count_between [] min_growth_pct max_growth_pct count = Inr count"
| "count_between (growth # rest) min_growth_pct max_growth_pct count =
     (case min_growth_pct of
        None \<Rightarrow> Inl TypeError
      | Some lo \<Rightarrow>
          if lo < growth then
            (case max_growth_pct of
               None \<Rightarrow> Inl TypeError
             | Some hi \<Rightarrow>
                 count_between rest min_growth_pct max_growth_pct
                   (if growth < hi then count + 1 else count))
          else count_between rest min_growth_pct max_growth_pct count)"

text \<open>
  The \<^verbatim>\<open>if\<close>/\<^verbatim>\<open>elif\<close>/\<^verbatim>\<open>else\<close> chain selects the loop; the last line divides the
  two ints \<^verbatim>\<open>count\<close> and \<^verbatim>\<open>len(growth_data)\<close> (true division; a zero divisor raises
  \<^verbatim>\<open>ZeroDivisionError\<close>) and multiplies by 100.
\<close>

definition growth_probability ::
  "'a::{ord,field} list \<Rightarrow> 'a option \<Rightarrow> 'a option \<Rightarrow> exn + 'a" where
  "growth_probability growth_data min_growth_pct max_growth_pct =
     (case
        (case (min_growth_pct, max_growth_pct) of
           (None, Some mx) \<Rightarrow> Inr (count_below growth_data mx 0)
         | (Some mn, None) \<Rightarrow> Inr (count_above growth_data mn 0)
         | _ \<Rightarrow> count_between growth_data min_growth_pct max_growth_pct 0)
      of
        Inl e \<Rightarrow> Inl e
      | Inr count \<Rightarrow>
          if length growth_data = 0 then Inl ZeroDivisionError
          else Inr (of_nat count / of_nat (length growth_data) * 100))"

subsection \<open>\<^verbatim>\<open>get_yearly_returns\<close> (lines 87-98)\<close>

text \<open>
  \<^verbatim>\<open>asset.history('max').Close.resample('Y').ffill()\<close> is the data provider's series of
  yearly closing prices, oldest first; it is the argument \<open>closes\<close> here. The pandas
  method \<^verbatim>\<open>pct_change()\<close> returns a series of the same length: its first entry is
  NaN (there is no earlier price), every later entry is \<^verbatim>\<open>p / prev - 1\<close> for the
  price \<open>p\<close> and the price \<open>prev\<close> before it. pandas divides without raising: a
  zero \<open>prev\<close> gives an infinity or NaN. \<open>None\<close> stands for such a float that is
  no number (NaN or an infinity).
\<close>

fun pct_change_from :: "'a::field \<Rightarrow> 'a list \<Rightarrow> 'a option list" where
  "pct_change_from prev [] = []"
| "pct_change_from prev (p # ps) =
     (if prev = 0 then None else Some (p / prev - 1)) # pct_change_from p ps"

definition pct_change :: "'a::field list \<Rightarrow> 'a option list" where
  "pct_change closes = (case closes of [] \<Rightarrow> [] | p # ps \<Rightarrow> None # pct_change_from p ps)"

text \<open>\<^verbatim>\<open>data.pop(0)\<close> removes the first element; on an empty list it raises \<^verbatim>\<open>IndexError\<close>.\<close>

definition pop0 :: "'b list \<Rightarrow> exn + 'b list" where
  "pop0 data = (case data of [] \<Rightarrow> Inl IndexError | x # rest \<Rightarrow> Inr rest)"

definition get_yearly_returns :: "'a::field list \<Rightarrow> exn + 'a option list" where
  "get_yearly_returns closes = (let data = pct_change closes in pop0 data)"

subsection \<open>The simulation (lines 73-77 and 149-171)\<close>

text \<open>
  The module-level parameters. \<^verbatim>\<open>PORTFOLIO\<close> is a dict from asset to weight, read in
  insertion order; an asset is used through its ticker only.
\<close>

record 'a config =
  TRIALS :: int
  YEARS_TO_SIMULATE :: int
  PORTFOLIO :: "(string \<times> 'a) list"
  INITIAL_INVESTMENT :: 'a
  BENCHMARK_ANNUAL_RETURN :: 'a

text \<open>
  \<^verbatim>\<open>random.choice(seq)\<close> returns \<^verbatim>\<open>seq[i]\<close> for an index \<open>i\<close> below \<^verbatim>\<open>len(seq)\<close> that
  the generator supplies, and raises \<^verbatim>\<open>IndexError\<close> on an empty sequence. The
  generator is a sequence \<open>rng\<close> of naturals, read at position \<open>k\<close>; the position
  moves on by one with every draw.
\<close>

definition random_choice :: "(nat \<Rightarrow> nat) \<Rightarrow> nat \<Rightarrow> 'b list \<Rightarrow> exn + ('b \<times> nat)" where
  "random_choice rng k seq =
     (if seq = [] then Inl IndexError else Inr (seq ! (rng k mod length seq), Suc k))"

text \<open>
  The loop over the assets (lines 158-166), on the state
  \<open>(portfolio_value, value_to_add, k)\<close>. \<^verbatim>\<open>yearly_returns[asset.ticker]\<close> raises
  \<^verbatim>\<open>KeyError\<close> for a ticker that is no key.
\<close>

fun assets_loop ::
  "'a::{zero,plus,times} config \<Rightarrow> (string \<rightharpoonup> 'a list) \<Rightarrow> (nat \<Rightarrow> nat) \<Rightarrow> nat \<Rightarrow>
   (string \<times> 'a) list \<Rightarrow> 'a \<times> 'a \<times> nat \<Rightarrow> exn + ('a \<times> 'a \<times> nat)" where
  "assets_loop cfg yearly_returns rng year [] (portfolio_value, value_to_add, k) =
     Inr (portfolio_value, value_to_add, k)"
| "assets_loop cfg yearly_returns rng year ((asset, weight) # rest)
     (portfolio_value, value_to_add, k) =
     (if year = 0 then
        assets_loop cfg yearly_returns rng year rest
          (portfolio_value + INITIAL_INVESTMENT cfg * weight, value_to_add, k)
      else
        (let asset_value = portfolio_value * weight in
         case yearly_returns asset of
           None \<Rightarrow> Inl KeyError
         | Some pool \<Rightarrow>
             (case random_choice rng k pool of
                Inl e \<Rightarrow> Inl e
              | Inr (random_return, k') \<Rightarrow>
                  assets_loop cfg yearly_returns rng year rest
                    (portfolio_value, value_to_add + asset_value * random_return, k'))))"

text \<open>
  The loop over the years (lines 155-169): \<open>n\<close> iterations are left, \<open>year\<close> is the
  loop variable, the state is \<open>(portfolio_value, current_sim_data, k)\<close>.
\<close>

fun years_loop ::
  "'a::{zero,plus,times} config \<Rightarrow> (string \<rightharpoonup> 'a list) \<Rightarrow> (nat \<Rightarrow> nat) \<Rightarrow> nat \<Rightarrow> nat \<Rightarrow>
   'a \<times> 'a list \<times> nat \<Rightarrow> exn + ('a \<times> 'a list \<times> nat)" where
  "years_loop cfg yearly_returns rng 0 year st = Inr st"
| "years_loop cfg yearly_returns rng (Suc n) year (portfolio_value, current_sim_data, k) =
     (case assets_loop cfg yearly_returns rng year (PORTFOLIO cfg) (portfolio_value, 0, k) of
        Inl e \<Rightarrow> Inl e
      | Inr (portfolio_value1, value_to_add, k') \<Rightarrow>
          (let portfolio_value2 = portfolio_value1 + value_to_add in
           years_loop cfg yearly_returns rng n (Suc year)
             (portfolio_value2, current_sim_data @ [portfolio_value2], k')))"

text \<open>
  The loop over the trials (lines 151-171), on the state \<open>(data, k)\<close>. An exception
  leaves the module-level list \<^verbatim>\<open>data\<close> as it is at that moment: the failure carries
  it.
\<close>

fun trials_loop ::
  "'a::{zero,plus,times} config \<Rightarrow> (string \<rightharpoonup> 'a list) \<Rightarrow> (nat \<Rightarrow> nat) \<Rightarrow> nat \<Rightarrow>
   'a list list \<times> nat \<Rightarrow> (exn \<times> 'a list list) + ('a list list \<times> nat)" where
  "trials_loop cfg yearly_returns rng 0 st = Inr st"
| "trials_loop cfg yearly_returns rng (Suc n) (data, k) =
     (case years_loop cfg yearly_returns rng (nat (YEARS_TO_SIMULATE cfg + 1)) 0 (0, [], k) of
        Inl e \<Rightarrow> Inl (e, data)
      | Inr (portfolio_value, current_sim_data, k') \<Rightarrow>
          trials_loop cfg yearly_returns rng n (data @ [current_sim_data], k'))"

definition simulate ::
  "'a::{zero,plus,times} config \<Rightarrow> (string \<rightharpoonup> 'a list) \<Rightarrow> (nat \<Rightarrow> nat) \<Rightarrow>
   (exn \<times> 'a list list) + ('a list list \<times> nat)" where
  "simulate cfg yearly_returns rng =
     trials_loop cfg yearly_returns rng (nat (TRIALS cfg)) ([], 0)"

subsection \<open>Reporting (lines 82-83, 190 and 204)\<close>

text \<open>
  Line 190: \<^verbatim>\<open>sim_data[-1]\<close> raises \<^verbatim>\<open>IndexError\<close> on an empty list, the division
  raises \<^verbatim>\<open>ZeroDivisionError\<close> for a zero \<^verbatim>\<open>INITIAL_INVESTMENT\<close>.
\<close>

fun final_growths :: "'a::field config \<Rightarrow> 'a list list \<Rightarrow> exn + 'a list" where
  "final_growths cfg [] = Inr []"
| "final_growths cfg (sim_data # rest) =
     (if sim_data = [] then Inl IndexError
      else if INITIAL_INVESTMENT cfg = 0 then Inl ZeroDivisionError
      else
        (case final_growths cfg rest of
           Inl e \<Rightarrow> Inl e
         | Inr growths \<Rightarrow> Inr ((last sim_data / INITIAL_INVESTMENT cfg * 100 - 100) # growths)))"

text \<open>
  Lines 82-83: \<^verbatim>\<open>INITIAL_INVESTMENT * (1 + BENCHMARK_ANNUAL_RETURN) ** YEARS_TO_SIMULATE\<close>.
  A zero base with a negative exponent raises \<^verbatim>\<open>ZeroDivisionError\<close>.
\<close>

definition benchmark_future_value :: "'a::field config \<Rightarrow> exn + 'a" where
  "benchmark_future_value cfg =
     (if YEARS_TO_SIMULATE cfg < 0 \<and> 1 + BENCHMARK_ANNUAL_RETURN cfg = 0
      then Inl ZeroDivisionError
      else Inr (INITIAL_INVESTMENT cfg *
                  power_int (1 + BENCHMARK_ANNUAL_RETURN cfg) (YEARS_TO_SIMULATE cfg)))"

text \<open>
  Line 204, with the values it reads: \<^verbatim>\<open>benchmark_future_value\<close> of line 82 and
  \<^verbatim>\<open>final_growths\<close> of line 190, for the matrix \<open>data\<close> of the simulation.
\<close>

definition outperformance_probability :: "'a::{ord,field} config \<Rightarrow> 'a list list \<Rightarrow> exn + 'a" where
  "outperformance_probability cfg data =
     (case benchmark_future_value cfg of
        Inl e \<Rightarrow> Inl e
      | Inr future_value \<Rightarrow>
          (case final_growths cfg data of
             Inl e \<Rightarrow> Inl e
           | Inr growths \<Rightarrow> growth_probability growths (Some future_value) None))"

section \<open>Specification-side notions and a worked example\<close>

text \<open>
  Every asset of the portfolio has a return pool, and the pool is not empty.
\<close>

definition pools_ok :: "(string \<rightharpoonup> 'a list) \<Rightarrow> (string \<times> 'a) list \<Rightarrow> bool" where
  "pools_ok yearly_returns assets \<longleftrightarrow>
     (\<forall>aw\<in>set assets. \<exists>pool. yearly_returns (fst aw) = Some pool \<and> pool \<noteq> [])"

text \<open>
  One simulated year, as the specification words it: the value \<open>new\<close> after the year
  is the value \<open>old\<close> before it plus, for every asset, \<open>old\<close> times the asset's
  weight times a return \<open>rs ! i\<close> taken from the asset's pool. The return of asset
  \<open>i\<close> is the one the generator selects at position \<open>k + i\<close>.
\<close>

definition year_step ::
  "'a::comm_semiring_1 config \<Rightarrow> (string \<rightharpoonup> 'a list) \<Rightarrow> (nat \<Rightarrow> nat) \<Rightarrow> nat \<Rightarrow> 'a \<Rightarrow> 'a \<Rightarrow> bool" where
  "year_step cfg yearly_returns rng k old new \<longleftrightarrow>
     (\<exists>rs. length rs = length (PORTFOLIO cfg) \<and>
        (\<forall>i<length (PORTFOLIO cfg). \<exists>pool.
            yearly_returns (fst (PORTFOLIO cfg ! i)) = Some pool \<and> pool \<noteq> [] \<and>
            rs ! i = pool ! (rng (k + i) mod length pool)) \<and>
        new = old + (\<Sum>i<length (PORTFOLIO cfg). old * snd (PORTFOLIO cfg ! i) * rs ! i))"

text \<open>The list \<open>sim\<close> is the trajectory of a trial that starts at generator position \<open>k\<close>.\<close>

definition trial_ok ::
  "'a::comm_semiring_1 config \<Rightarrow> (string \<rightharpoonup> 'a list) \<Rightarrow> (nat \<Rightarrow> nat) \<Rightarrow> nat \<Rightarrow> 'a list \<Rightarrow> bool" where
  "trial_ok cfg yearly_returns rng k sim \<longleftrightarrow>
     (\<exists>pv k'. years_loop cfg yearly_returns rng (nat (YEARS_TO_SIMULATE cfg + 1)) 0 (0, [], k)
                = Inr (pv, sim, k'))"

text \<open>
  A small run: two trials of two years, two assets of weight one half each, and a
  generator that selects index 0, 0, 1, 1, 2, 2, ...
\<close>

definition example_config :: "real config" where
  "example_config =
     \<lparr>TRIALS = 2, YEARS_TO_SIMULATE = 2, PORTFOLIO = [(''AAPL'', 1/2), (''BTC-USD'', 1/2)],
      INITIAL_INVESTMENT = 100, BENCHMARK_ANNUAL_RETURN = 1/10\<rparr>"

definition example_returns :: "string \<rightharpoonup> real list" where
  "example_returns = [''AAPL'' \<mapsto> [1/10, -1/10], ''BTC-USD'' \<mapsto> [1/2]]"

definition example_rng :: "nat \<Rightarrow> nat" where
  "example_rng k = k div 2"

text \<open>The same pools, but the second asset has no return at all.\<close>

definition example_empty_pool :: "string \<rightharpoonup> real list" where
  "example_empty_pool = [''AAPL'' \<mapsto> [1/10, -1/10], ''BTC-USD'' \<mapsto> []]"

section \<open>Properties of \<^verbatim>\<open>growth_probability\<close>\<close>

text \<open>Each loop counts the elements that pass its test.\<close>

lemma count_below_filter:
  "count_below growth_data mx count =
     count + length (filter (\<lambda>growth. growth < mx) growth_data)"
  by (induction growth_data arbitrary: count) simp_all

lemma count_above_filter:
  "count_above growth_data mn count =
     count + length (filter (\<lambda>growth. mn < growth) growth_data)"
  by (induction growth_data arbitrary: count) simp_all

lemma count_between_filter:
  "count_between growth_data (Some mn) (Some mx) count =
     Inr (count + length (filter (\<lambda>growth. mn < growth \<and> growth < mx) growth_data))"
  by (induction growth_data arbitrary: count) simp_all

lemma count_between_None:
  "growth_data \<noteq> [] \<Longrightarrow> count_between growth_data None None count = Inl TypeError"
  by (cases growth_data) simp_all

text \<open>
  C5. On a distribution that is not empty, \<open>growth_probability\<close> returns
  \<open>count / len(growth_data) * 100\<close>, where \<open>count\<close> is the number of elements
  strictly between the bounds when both are given, strictly below \<open>max_growth_pct\<close>
  when only that one is given, and strictly above \<open>min_growth_pct\<close> when only that
  one is given. The three modes are the three shapes \<open>(Some, Some)\<close>,
  \<open>(None, Some)\<close>, \<open>(Some, None)\<close> of the pair of bounds, so exactly one applies.
  No law of the order is used.
\<close>

theorem growth_probability_modes:
  fixes growth_data :: "'a::{ord,field} list"
  assumes "growth_data \<noteq> []"
  shows "growth_probability growth_data (Some mn) (Some mx) =
           Inr (of_nat (length (filter (\<lambda>growth. mn < growth \<and> growth < mx) growth_data))
                  / of_nat (length growth_data) * 100)
       \<and> growth_probability growth_data None (Some mx) =
           Inr (of_nat (length (filter (\<lambda>growth. growth < mx) growth_data))
                  / of_nat (length growth_data) * 100)
       \<and> growth_probability growth_data (Some mn) None =
           Inr (of_nat (length (filter (\<lambda>growth. growth > mn) growth_data))
                  / of_nat (length growth_data) * 100)"
  using assms
  by (simp add: growth_probability_def count_below_filter count_above_filter
      count_between_filter)

theorem growth_probability_modes_witness:
  "[-5, 0, 20, 100, 150 :: real] \<noteq> []
   \<and> growth_probability [-5, 0, 20, 100, 150 :: real] (Some 0) (Some 100) = Inr 20
   \<and> growth_probability [-5, 0, 20, 100, 150 :: real] None (Some 100) = Inr 60
   \<and> growth_probability [-5, 0, 20, 100, 150 :: real] (Some 0) None = Inr 60"
  using growth_probability_modes [of "[-5, 0, 20, 100, 150 :: real]" 0 100]
  by simp

text \<open>
  C6, as the code has it. With both bounds absent the \<^verbatim>\<open>else\<close> branch compares
  \<^verbatim>\<open>None\<close> with the first element: on a distribution that is not empty the call
  fails with \<^verbatim>\<open>TypeError\<close>. On the empty distribution every call, whatever the
  bounds, fails with \<^verbatim>\<open>ZeroDivisionError\<close> at the final division.
\<close>

theorem growth_probability_errors:
  fixes growth_data :: "'a::{ord,field} list"
  shows "(growth_data \<noteq> [] \<longrightarrow> growth_probability growth_data None None = Inl TypeError)
       \<and> growth_probability ([] :: 'a list) min_growth_pct max_growth_pct = Inl ZeroDivisionError"
  by (cases min_growth_pct; cases max_growth_pct)
     (simp_all add: growth_probability_def count_between_None)

theorem growth_probability_errors_witness:
  "growth_probability [1 :: real] None None = Inl TypeError
   \<and> growth_probability ([] :: real list) (Some 0) None = Inl ZeroDivisionError"
  using growth_probability_errors [of "[1 :: real]" "Some 0" None]
  by simp

text \<open>
  C6, as the specification has it, fails: the exceptions are not the classes
  \<^verbatim>\<open>InvalidRangeError\<close> and \<^verbatim>\<open>EmptyDistributionError\<close>.
\<close>

theorem growth_probability_errors_counterexample:
  "growth_probability [1 :: real] None None \<noteq> Inl (UserDefined ''InvalidRangeError'')
   \<and> growth_probability ([] :: real list) None (Some 0)
       \<noteq> Inl (UserDefined ''EmptyDistributionError'')"
  by (simp add: growth_probability_def)

lemma three_way_count:
  fixes X :: "'a::linorder"
  shows "length (filter (\<lambda>g. g < X) xs) + length (filter (\<lambda>g. X < g) xs)
           + length (filter (\<lambda>g. g = X) xs) = length xs"
  by (induction xs) auto

text \<open>
  C9. In exact arithmetic over a linear order: on a distribution that is not
  empty, the percentage strictly below \<open>X\<close> plus the percentage strictly above \<open>X\<close>
  is 100 minus 100 times the number of elements equal to \<open>X\<close> over the length.
\<close>

theorem growth_probability_complement:
  fixes growth_data :: "'a::linordered_field list"
  assumes "growth_data \<noteq> []"
  shows "\<exists>below above.
           growth_probability growth_data None (Some X) = Inr below
         \<and> growth_probability growth_data (Some X) None = Inr above
         \<and> below + above =
             100 - 100 * of_nat (length (filter (\<lambda>growth. growth = X) growth_data))
                     / of_nat (length growth_data)"
proof -
  let ?n = "length growth_data"
  let ?lt = "length (filter (\<lambda>g. g < X) growth_data)"
  let ?gt = "length (filter (\<lambda>g. X < g) growth_data)"
  let ?eq = "length (filter (\<lambda>g. g = X) growth_data)"
  have n: "(of_nat ?n :: 'a) \<noteq> 0" using assms by simp
  have "?lt + ?gt + ?eq = ?n" by (rule three_way_count)
  then have "(of_nat ?lt :: 'a) + of_nat ?gt + of_nat ?eq = of_nat ?n"
    by (metis of_nat_add)
  then have "(of_nat ?lt :: 'a) + of_nat ?gt = of_nat ?n - of_nat ?eq"
    by (simp add: algebra_simps)
  then have "(of_nat ?lt :: 'a) / of_nat ?n * 100 + of_nat ?gt / of_nat ?n * 100
               = 100 - 100 * of_nat ?eq / of_nat ?n"
    using n by (simp add: field_simps)
  then show ?thesis
    using assms
    by (simp add: growth_probability_def count_below_filter count_above_filter)
qed

theorem growth_probability_complement_witness:
  "[-5, 0, 20, 100, 150 :: real] \<noteq> []
   \<and> (\<exists>below above.
        growth_probability [-5, 0, 20, 100, 150 :: real] None (Some 20) = Inr below
      \<and> growth_probability [-5, 0, 20, 100, 150 :: real] (Some 20) None = Inr above
      \<and> below + above = 80)"
  using growth_probability_complement [of "[-5, 0, 20, 100, 150 :: real]" 20]
  by simp

section \<open>Properties of the simulation\<close>

subsection \<open>The loop over the assets\<close>


lemma assets_loop_year0:
  "assets_loop cfg yr rng 0 assets (pv, vta, k) =
     Inr (foldl (\<lambda>v aw. v + INITIAL_INVESTMENT cfg * snd aw) pv assets, vta, k)"
  by (induction assets arbitrary: pv) auto

lemma foldl_year0_exact:
  fixes pv :: "'a::semiring_0"
  shows "foldl (\<lambda>v aw. v + c * snd aw) pv assets = pv + c * sum_list (map snd assets)"
  by (induction assets arbitrary: pv) (simp_all add: algebra_simps)

lemma assets_loop_draws:
  fixes pv :: "'a::semiring_0"
  assumes "year \<noteq> 0"
    and "assets_loop cfg yr rng year assets (pv, vta, k) = Inr (pv', vta', k')"
  shows "pv' = pv \<and> k' = k + length assets \<and>
         (\<exists>rs. length rs = length assets \<and>
            (\<forall>i<length assets. \<exists>pool. yr (fst (assets ! i)) = Some pool \<and> pool \<noteq> [] \<and>
                rs ! i = pool ! (rng (k + i) mod length pool)) \<and>
            vta' = vta + sum_list (map2 (\<lambda>aw r. pv * snd aw * r) assets rs))"
  using assms(2)
proof (induction assets arbitrary: vta k)
  case Nil
  then show ?case by simp
next
  case (Cons aw rest)
  obtain asset weight where aw: "aw = (asset, weight)" by (cases aw)
  from Cons.prems aw assms(1) obtain pool where
    pool: "yr asset = Some pool" "pool \<noteq> []"
    and rec: "assets_loop cfg yr rng year rest
                (pv, vta + pv * weight * (pool ! (rng k mod length pool)), Suc k) = Inr (pv', vta', k')"
    by (auto simp: random_choice_def split: option.splits if_splits)
  from Cons.IH [OF rec] obtain rs where
    pv: "pv' = pv" and k: "k' = Suc k + length rest" and len: "length rs = length rest"
    and sel: "\<forall>i<length rest. \<exists>pool. yr (fst (rest ! i)) = Some pool \<and> pool \<noteq> [] \<and>
                rs ! i = pool ! (rng (Suc k + i) mod length pool)"
    and vta: "vta' = vta + pv * weight * (pool ! (rng k mod length pool))
                + sum_list (map2 (\<lambda>aw r. pv * snd aw * r) rest rs)"
    by blast
  let ?rs = "(pool ! (rng k mod length pool)) # rs"
  have "\<forall>i<length (aw # rest). \<exists>pool. yr (fst ((aw # rest) ! i)) = Some pool \<and> pool \<noteq> [] \<and>
          ?rs ! i = pool ! (rng (k + i) mod length pool)"
  proof (intro allI impI)
    fix i assume i: "i < length (aw # rest)"
    show "\<exists>pool. yr (fst ((aw # rest) ! i)) = Some pool \<and> pool \<noteq> [] \<and>
            ?rs ! i = pool ! (rng (k + i) mod length pool)"
    proof (cases i)
      case 0
      then show ?thesis using pool aw by simp
    next
      case (Suc j)
      then have "j < length rest" using i by simp
      with sel Suc show ?thesis by simp
    qed
  qed
  moreover have "length ?rs = length (aw # rest)" using len by simp
  moreover have "vta' = vta + sum_list (map2 (\<lambda>aw r. pv * snd aw * r) (aw # rest) ?rs)"
    using vta aw by (simp add: add.assoc)
  ultimately show ?case using pv k by (intro conjI exI [of _ ?rs]) simp_all
qed

lemma sum_list_map2_nth:
  fixes f :: "'b \<Rightarrow> 'c \<Rightarrow> 'a::comm_monoid_add"
  assumes "length ys = length xs"
  shows "sum_list (map2 f xs ys) = (\<Sum>i<length xs. f (xs ! i) (ys ! i))"
proof -
  have "sum_list (map2 f xs ys) = (\<Sum>i = 0..<length (map2 f xs ys). map2 f xs ys ! i)"
    by (rule sum_list_sum_nth)
  also have "\<dots> = (\<Sum>i<length xs. f (xs ! i) (ys ! i))"
    using assms by (intro sum.cong) (auto simp: atLeast0LessThan)
  finally show ?thesis .
qed

subsection \<open>The loops over the years and the trials\<close>

lemma assets_loop_year_step:
  fixes pv :: "'a::comm_semiring_1"
  assumes "year \<noteq> 0"
    and "assets_loop cfg yr rng year (PORTFOLIO cfg) (pv, 0, k) = Inr (pv', vta', k')"
  shows "pv' = pv \<and> k' = k + length (PORTFOLIO cfg) \<and> year_step cfg yr rng k pv (pv + vta')"
proof -
  from assets_loop_draws [OF assms] obtain rs where
    pv: "pv' = pv" and k: "k' = k + length (PORTFOLIO cfg)"
    and len: "length rs = length (PORTFOLIO cfg)"
    and sel: "\<forall>i<length (PORTFOLIO cfg). \<exists>pool. yr (fst (PORTFOLIO cfg ! i)) = Some pool \<and>
                pool \<noteq> [] \<and> rs ! i = pool ! (rng (k + i) mod length pool)"
    and vta: "vta' = 0 + sum_list (map2 (\<lambda>aw r. pv * snd aw * r) (PORTFOLIO cfg) rs)"
    by blast
  have "vta' = (\<Sum>i<length (PORTFOLIO cfg). pv * snd (PORTFOLIO cfg ! i) * rs ! i)"
    using vta sum_list_map2_nth [OF len, of "\<lambda>aw r. pv * snd aw * r"] by simp
  with len sel have "year_step cfg yr rng k pv (pv + vta')"
    unfolding year_step_def by blast
  with pv k show ?thesis by simp
qed

lemma years_loop_steps:
  fixes pv :: "'a::comm_semiring_1"
  assumes "0 < year"
    and "years_loop cfg yr rng n year (pv, sim, k) = Inr (pv', sim', k')"
  shows "\<exists>ext. sim' = sim @ ext \<and> length ext = n \<and> k' = k + n * length (PORTFOLIO cfg) \<and>
           (\<forall>j<n. year_step cfg yr rng (k + j * length (PORTFOLIO cfg)) ((pv # ext) ! j) (ext ! j))"
  using assms
proof (induction n arbitrary: year pv sim k)
  case 0
  then show ?case by simp
next
  case (Suc n)
  let ?m = "length (PORTFOLIO cfg)"
  from Suc.prems(2) obtain pv1 vta k1 where
    al: "assets_loop cfg yr rng year (PORTFOLIO cfg) (pv, 0, k) = Inr (pv1, vta, k1)"
    and rec: "years_loop cfg yr rng n (Suc year) (pv1 + vta, sim @ [pv1 + vta], k1) = Inr (pv', sim', k')"
    by (auto simp: Let_def split: sum.splits)
  from Suc.prems(1) have "year \<noteq> 0" by simp
  from assets_loop_year_step [OF this al] have
    pv1: "pv1 = pv" and k1: "k1 = k + ?m" and step: "year_step cfg yr rng k pv (pv + vta)"
    by simp_all
  from Suc.IH [OF _ rec] obtain ext where
    sim': "sim' = (sim @ [pv1 + vta]) @ ext" and len: "length ext = n"
    and k': "k' = k1 + n * ?m"
    and steps: "\<forall>j<n. year_step cfg yr rng (k1 + j * ?m) (((pv1 + vta) # ext) ! j) (ext ! j)"
    by auto
  let ?ext = "(pv + vta) # ext"
  have "\<forall>j<Suc n. year_step cfg yr rng (k + j * ?m) ((pv # ?ext) ! j) (?ext ! j)"
  proof (intro allI impI)
    fix j assume j: "j < Suc n"
    show "year_step cfg yr rng (k + j * ?m) ((pv # ?ext) ! j) (?ext ! j)"
    proof (cases j)
      case 0
      then show ?thesis using step by simp
    next
      case (Suc i)
      then have "i < n" using j by simp
      with steps have "year_step cfg yr rng (k1 + i * ?m) (((pv1 + vta) # ext) ! i) (ext ! i)"
        by simp
      then show ?thesis using Suc pv1 k1 by (simp add: add.assoc)
    qed
  qed
  moreover have "sim' = sim @ ?ext" using sim' pv1 by simp
  moreover have "length ?ext = Suc n" using len by simp
  moreover have "k' = k + Suc n * ?m" using k' k1 by simp
  ultimately show ?case by blast
qed

lemma years_loop_trial:
  fixes pv' :: "'a::comm_semiring_1"
  assumes "years_loop cfg yr rng (Suc n) 0 (0, [], k) = Inr (pv', sim', k')"
  shows "length sim' = Suc n \<and> k' = k + n * length (PORTFOLIO cfg) \<and>
         sim' ! 0 = foldl (\<lambda>v aw. v + INITIAL_INVESTMENT cfg * snd aw) 0 (PORTFOLIO cfg) + 0 \<and>
         (\<forall>j<n. year_step cfg yr rng (k + j * length (PORTFOLIO cfg)) (sim' ! j) (sim' ! Suc j))"
proof -
  let ?v0 = "foldl (\<lambda>v aw. v + INITIAL_INVESTMENT cfg * snd aw) 0 (PORTFOLIO cfg) + 0"
  from assms have rec: "years_loop cfg yr rng n (Suc 0) (?v0, [?v0], k) = Inr (pv', sim', k')"
    by (simp add: assets_loop_year0 Let_def)
  from years_loop_steps [OF _ rec] obtain ext where
    sim': "sim' = [?v0] @ ext" and len: "length ext = n"
    and k': "k' = k + n * length (PORTFOLIO cfg)"
    and steps: "\<forall>j<n. year_step cfg yr rng (k + j * length (PORTFOLIO cfg)) ((?v0 # ext) ! j) (ext ! j)"
    by auto
  show ?thesis using sim' len k' steps by simp
qed

lemma years_loop_position:
  fixes pv' :: "'a::comm_semiring_1"
  assumes "years_loop cfg yr rng n 0 (0, [], k) = Inr (pv', sim', k')"
  shows "k' = k + (n - 1) * length (PORTFOLIO cfg) \<and> length sim' = n"
proof (cases n)
  case 0
  with assms show ?thesis by simp
next
  case (Suc n')
  with years_loop_trial [of cfg yr rng n' k pv' sim' k'] assms show ?thesis by simp
qed

lemma trials_loop_trials:
  fixes data :: "'a::comm_semiring_1 list list"
  assumes "trials_loop cfg yr rng n (data, k) = Inr (data', k')"
  shows "\<exists>new. data' = data @ new \<and> length new = n \<and>
           (\<forall>t<n. trial_ok cfg yr rng
              (k + t * ((nat (YEARS_TO_SIMULATE cfg + 1) - 1) * length (PORTFOLIO cfg))) (new ! t))"
  using assms
proof (induction n arbitrary: data k)
  case 0
  then show ?case by simp
next
  case (Suc n)
  let ?d = "(nat (YEARS_TO_SIMULATE cfg + 1) - 1) * length (PORTFOLIO cfg)"
  from Suc.prems obtain pv sim k1 where
    yl: "years_loop cfg yr rng (nat (YEARS_TO_SIMULATE cfg + 1)) 0 (0, [], k) = Inr (pv, sim, k1)"
    and rec: "trials_loop cfg yr rng n (data @ [sim], k1) = Inr (data', k')"
    by (auto split: sum.splits)
  from years_loop_position [OF yl] have k1: "k1 = k + ?d" by simp
  from yl have ok: "trial_ok cfg yr rng k sim" unfolding trial_ok_def by blast
  from Suc.IH [OF rec] obtain new where
    data': "data' = (data @ [sim]) @ new" and len: "length new = n"
    and oks: "\<forall>t<n. trial_ok cfg yr rng (k1 + t * ?d) (new ! t)"
    by blast
  have "\<forall>t<Suc n. trial_ok cfg yr rng (k + t * ?d) ((sim # new) ! t)"
  proof (intro allI impI)
    fix t assume t: "t < Suc n"
    show "trial_ok cfg yr rng (k + t * ?d) ((sim # new) ! t)"
    proof (cases t)
      case 0
      then show ?thesis using ok by simp
    next
      case (Suc s)
      then have "s < n" using t by simp
      with oks have "trial_ok cfg yr rng (k1 + s * ?d) (new ! s)" by simp
      then show ?thesis using Suc k1 by (simp add: add.assoc)
    qed
  qed
  moreover have "data' = data @ (sim # new)" using data' by simp
  moreover have "length (sim # new) = Suc n" using len by simp
  ultimately show ?case by blast
qed

subsection \<open>The shape of the matrix\<close>

lemma example_simulate:
  "simulate example_config example_returns example_rng = Inr ([[100, 130, 156], [100, 130, 156]], 8)"
  by code_simp

lemma years_loop_length:
  assumes "years_loop cfg yr rng n year (pv, sim, k) = Inr (pv', sim', k')"
  shows "length sim' = length sim + n"
  using assms
proof (induction n arbitrary: year pv sim k)
  case 0
  then show ?case by simp
next
  case (Suc n)
  from Suc.prems obtain pv1 vta k1 where
    "years_loop cfg yr rng n (Suc year) (pv1 + vta, sim @ [pv1 + vta], k1) = Inr (pv', sim', k')"
    by (auto simp: Let_def split: sum.splits)
  from Suc.IH [OF this] show ?case by simp
qed

lemma trials_loop_shape:
  assumes "trials_loop cfg yr rng n (data, k) = Inr (data', k')"
  shows "\<exists>new. data' = data @ new \<and> length new = n \<and>
           (\<forall>sim\<in>set new. length sim = nat (YEARS_TO_SIMULATE cfg + 1))"
  using assms
proof (induction n arbitrary: data k)
  case 0
  then show ?case by simp
next
  case (Suc n)
  from Suc.prems obtain pv sim k1 where
    yl: "years_loop cfg yr rng (nat (YEARS_TO_SIMULATE cfg + 1)) 0 (0, [], k) = Inr (pv, sim, k1)"
    and rec: "trials_loop cfg yr rng n (data @ [sim], k1) = Inr (data', k')"
    by (auto split: sum.splits)
  from years_loop_length [OF yl] have len: "length sim = nat (YEARS_TO_SIMULATE cfg + 1)" by simp
  from Suc.IH [OF rec] obtain new where
    "data' = (data @ [sim]) @ new" "length new = n"
    "\<forall>sim\<in>set new. length sim = nat (YEARS_TO_SIMULATE cfg + 1)"
    by blast
  with len show ?case by (intro exI [of _ "sim # new"]) simp
qed

lemma assets_loop_succeeds:
  assumes "pools_ok yr assets"
  shows "\<exists>st'. assets_loop cfg yr rng year assets (pv, vta, k) = Inr st'"
  using assms
proof (induction assets arbitrary: pv vta k)
  case Nil
  then show ?case by simp
next
  case (Cons aw rest)
  obtain asset weight where aw: "aw = (asset, weight)" by (cases aw)
  from Cons.prems aw obtain pool where pool: "yr asset = Some pool" "pool \<noteq> []"
    by (auto simp: pools_ok_def)
  from Cons.prems have rest: "pools_ok yr rest" by (simp add: pools_ok_def)
  show ?case
  proof (cases "year = 0")
    case True
    then show ?thesis
      using Cons.IH [OF rest, of "pv + INITIAL_INVESTMENT cfg * weight" vta k] aw by simp
  next
    case False
    then show ?thesis
      using Cons.IH [OF rest, of pv "vta + pv * weight * (pool ! (rng k mod length pool))" "Suc k"]
        aw pool
      by (simp add: random_choice_def)
  qed
qed

lemma years_loop_succeeds:
  assumes "pools_ok yr (PORTFOLIO cfg)"
  shows "\<exists>st'. years_loop cfg yr rng n year (pv, sim, k) = Inr st'"
proof (induction n arbitrary: year pv sim k)
  case 0
  then show ?case by simp
next
  case (Suc n)
  from assets_loop_succeeds [OF assms] obtain pv1 vta k1 where
    "assets_loop cfg yr rng year (PORTFOLIO cfg) (pv, 0, k) = Inr (pv1, vta, k1)"
    by (metis prod_cases3)
  with Suc.IH show ?case by (simp add: Let_def)
qed

lemma trials_loop_succeeds:
  assumes "pools_ok yr (PORTFOLIO cfg)"
  shows "\<exists>st'. trials_loop cfg yr rng n (data, k) = Inr st'"
proof (induction n arbitrary: data k)
  case 0
  then show ?case by simp
next
  case (Suc n)
  from years_loop_succeeds [OF assms] obtain pv sim k1 where
    "years_loop cfg yr rng (nat (YEARS_TO_SIMULATE cfg + 1)) 0 (0, [], k) = Inr (pv, sim, k1)"
    by (metis prod_cases3)
  with Suc.IH show ?case by simp
qed

text \<open>
  C2. For \<open>TRIALS\<close> and \<open>YEARS_TO_SIMULATE\<close> that are not negative, the matrix of a
  run that ends has \<open>TRIALS\<close> trajectories of \<open>YEARS_TO_SIMULATE + 1\<close> values each;
  and a run ends whenever every asset of the portfolio has a pool that is not empty.
  No law of arithmetic is used.
\<close>

theorem simulate_shape:
  assumes "0 \<le> TRIALS cfg" and "0 \<le> YEARS_TO_SIMULATE cfg"
  shows "(\<forall>data k. simulate cfg yr rng = Inr (data, k) \<longrightarrow>
            int (length data) = TRIALS cfg \<and>
            (\<forall>sim\<in>set data. int (length sim) = YEARS_TO_SIMULATE cfg + 1))
       \<and> (pools_ok yr (PORTFOLIO cfg) \<longrightarrow> (\<exists>data k. simulate cfg yr rng = Inr (data, k)))"
proof (intro conjI allI impI)
  fix data k
  assume "simulate cfg yr rng = Inr (data, k)"
  then have "trials_loop cfg yr rng (nat (TRIALS cfg)) ([], 0) = Inr (data, k)"
    by (simp add: simulate_def)
  from trials_loop_shape [OF this] have
    "length data = nat (TRIALS cfg)"
    "\<forall>sim\<in>set data. length sim = nat (YEARS_TO_SIMULATE cfg + 1)"
    by auto
  with assms show "int (length data) = TRIALS cfg"
    and "\<forall>sim\<in>set data. int (length sim) = YEARS_TO_SIMULATE cfg + 1"
    by auto
next
  assume "pools_ok yr (PORTFOLIO cfg)"
  from trials_loop_succeeds [OF this, of rng "nat (TRIALS cfg)" "[]" 0]
  show "\<exists>data k. simulate cfg yr rng = Inr (data, k)"
    by (auto simp: simulate_def)
qed

lemma example_pools_ok: "pools_ok example_returns (PORTFOLIO example_config)"
  by (simp add: pools_ok_def example_returns_def example_config_def)

theorem simulate_shape_witness:
  "simulate example_config example_returns example_rng = Inr ([[100, 130, 156], [100, 130, 156]], 8)
   \<and> int (length [[100, 130, 156], [100, 130, 156 :: real]]) = TRIALS example_config
   \<and> list_all (\<lambda>sim. int (length sim) = YEARS_TO_SIMULATE example_config + 1)
        [[100, 130, 156], [100, 130, 156 :: real]]
   \<and> pools_ok example_returns (PORTFOLIO example_config)"
  using simulate_shape [of example_config example_returns example_rng]
    example_simulate example_pools_ok
  by (simp add: example_config_def)

subsection \<open>One simulated year\<close>

lemma simulate_trial:
  fixes cfg :: "'a::comm_semiring_1 config"
  assumes "simulate cfg yr rng = Inr (data, k_end)" and "t < length data"
  shows "trial_ok cfg yr rng
           (t * ((nat (YEARS_TO_SIMULATE cfg + 1) - 1) * length (PORTFOLIO cfg))) (data ! t)"
proof -
  from assms(1) have "trials_loop cfg yr rng (nat (TRIALS cfg)) ([], 0) = Inr (data, k_end)"
    by (simp add: simulate_def)
  from trials_loop_trials [OF this] assms(2) show ?thesis by auto
qed

lemma year_step_closed_form:
  fixes old :: "'a::comm_semiring_1"
  shows "old + (\<Sum>i<m. old * w i * r i) = old * (1 + (\<Sum>i<m. w i * r i))"
  by (simp add: distrib_left sum_distrib_left mult.assoc)

text \<open>
  C1. In a run that ends, for every trial \<open>t\<close> and every year \<open>y\<close> from 1 to
  \<open>YEARS_TO_SIMULATE\<close>, the value of year \<open>y\<close> is the value of year \<open>y - 1\<close> plus the
  sum over the assets of that value times the asset's weight times a return \<open>rs ! i\<close>.
  The return of asset \<open>i\<close> is an element of the pool of that asset, the one the
  generator selects at a position of its own,
  \<open>(t * YEARS_TO_SIMULATE + (y - 1)) * len(PORTFOLIO) + i\<close>: no draw is used twice. In
  exact arithmetic this is the value of year \<open>y - 1\<close> times one plus the weighted sum
  of the returns. Every share is a weight times the total of the year before.
  That the generator selects uniformly is a property of \<^verbatim>\<open>random.choice\<close>, not of this
  program; the theorem holds for every generator.
\<close>

theorem simulate_year_step:
  fixes cfg :: "'a::comm_semiring_1 config"
  assumes "simulate cfg yearly_returns rng = Inr (data, k_end)"
    and "t < length data" and "1 \<le> y" and "int y \<le> YEARS_TO_SIMULATE cfg"
  shows "\<exists>rs. length rs = length (PORTFOLIO cfg) \<and>
           (\<forall>i<length (PORTFOLIO cfg). \<exists>pool.
               yearly_returns (fst (PORTFOLIO cfg ! i)) = Some pool \<and> rs ! i \<in> set pool \<and>
               rs ! i = pool ! (rng ((t * nat (YEARS_TO_SIMULATE cfg) + (y - 1))
                                       * length (PORTFOLIO cfg) + i) mod length pool)) \<and>
           data ! t ! y = data ! t ! (y - 1)
              + (\<Sum>i<length (PORTFOLIO cfg). data ! t ! (y - 1) * snd (PORTFOLIO cfg ! i) * rs ! i) \<and>
           data ! t ! y = data ! t ! (y - 1)
              * (1 + (\<Sum>i<length (PORTFOLIO cfg). snd (PORTFOLIO cfg ! i) * rs ! i))"
proof -
  let ?m = "length (PORTFOLIO cfg)"
  let ?Y = "nat (YEARS_TO_SIMULATE cfg)"
  have Y: "nat (YEARS_TO_SIMULATE cfg + 1) = Suc ?Y" using assms(3,4) by simp
  from simulate_trial [OF assms(1,2)] obtain pv k' where
    yl: "years_loop cfg yearly_returns rng (Suc ?Y) 0 (0, [], t * (?Y * ?m)) = Inr (pv, data ! t, k')"
    unfolding trial_ok_def Y by auto
  obtain j where j: "y = Suc j" using assms(3) by (cases y) simp_all
  then have "j < ?Y" using assms(4) by simp
  with years_loop_trial [OF yl] have
    "year_step cfg yearly_returns rng (t * (?Y * ?m) + j * ?m) (data ! t ! j) (data ! t ! Suc j)"
    by simp
  then obtain rs where len: "length rs = ?m"
    and sel: "\<forall>i<?m. \<exists>pool. yearly_returns (fst (PORTFOLIO cfg ! i)) = Some pool \<and> pool \<noteq> [] \<and>
                rs ! i = pool ! (rng (t * (?Y * ?m) + j * ?m + i) mod length pool)"
    and new: "data ! t ! Suc j = data ! t ! j
                + (\<Sum>i<?m. data ! t ! j * snd (PORTFOLIO cfg ! i) * rs ! i)"
    unfolding year_step_def by blast
  have pos: "t * (?Y * ?m) + j * ?m = (t * ?Y + (y - 1)) * ?m"
    using j by (simp add: algebra_simps)
  have "\<forall>i<?m. \<exists>pool. yearly_returns (fst (PORTFOLIO cfg ! i)) = Some pool \<and> rs ! i \<in> set pool \<and>
          rs ! i = pool ! (rng ((t * ?Y + (y - 1)) * ?m + i) mod length pool)"
  proof (intro allI impI)
    fix i assume "i < ?m"
    with sel obtain pool where p: "yearly_returns (fst (PORTFOLIO cfg ! i)) = Some pool" "pool \<noteq> []"
      "rs ! i = pool ! (rng (t * (?Y * ?m) + j * ?m + i) mod length pool)"
      by blast
    from p(2) have "rng (t * (?Y * ?m) + j * ?m + i) mod length pool < length pool" by simp
    then have "rs ! i \<in> set pool" using p(3) by simp
    with p pos show "\<exists>pool. yearly_returns (fst (PORTFOLIO cfg ! i)) = Some pool \<and> rs ! i \<in> set pool \<and>
          rs ! i = pool ! (rng ((t * ?Y + (y - 1)) * ?m + i) mod length pool)"
      by simp
  qed
  moreover have "data ! t ! y = data ! t ! (y - 1)
          + (\<Sum>i<?m. data ! t ! (y - 1) * snd (PORTFOLIO cfg ! i) * rs ! i)"
    using new j by simp
  moreover from this have "data ! t ! y = data ! t ! (y - 1)
          * (1 + (\<Sum>i<?m. snd (PORTFOLIO cfg ! i) * rs ! i))"
    by (simp only: year_step_closed_form)
  ultimately show ?thesis using len by blast
qed

theorem simulate_year_step_witness:
  "simulate example_config example_returns example_rng
     = Inr ([[100, 130, 156], [100, 130, 156]], 8)
   \<and> (\<exists>rs. length rs = length (PORTFOLIO example_config) \<and>
         (156 :: real) = 130 + (\<Sum>i<length (PORTFOLIO example_config).
                                  130 * snd (PORTFOLIO example_config ! i) * rs ! i) \<and>
         (156 :: real) = 130 * (1 + (\<Sum>i<length (PORTFOLIO example_config).
                                  snd (PORTFOLIO example_config ! i) * rs ! i)))"
proof -
  have "(1::nat) < length [[100, 130, 156], [100, 130, 156 :: real]]" by simp
  moreover have "int 2 \<le> YEARS_TO_SIMULATE example_config" by (simp add: example_config_def)
  ultimately show ?thesis
    using simulate_year_step [OF example_simulate, of 1 2] example_simulate
    by auto
qed

text \<open>
  The value of year 0 is the sum of \<^verbatim>\<open>INITIAL_INVESTMENT * weight\<close> over the assets. In
  exact arithmetic that is the initial investment times the sum of the weights, hence
  the initial investment when the weights sum to 1. (In floating point the sum is
  rounded at every step.)
\<close>

lemma simulate_year0_exact:
  fixes cfg :: "'a::comm_semiring_1 config"
  assumes "simulate cfg yearly_returns rng = Inr (data, k_end)"
    and "t < length data" and "0 \<le> YEARS_TO_SIMULATE cfg"
  shows "data ! t ! 0 = INITIAL_INVESTMENT cfg * sum_list (map snd (PORTFOLIO cfg))"
proof -
  let ?Y = "nat (YEARS_TO_SIMULATE cfg)"
  have Y: "nat (YEARS_TO_SIMULATE cfg + 1) = Suc ?Y" using assms(3) by simp
  from simulate_trial [OF assms(1,2)] obtain pv k k' where
    yl: "years_loop cfg yearly_returns rng (Suc ?Y) 0 (0, [], k) = Inr (pv, data ! t, k')"
    unfolding trial_ok_def Y by auto
  from years_loop_trial [OF yl] show ?thesis
    by (simp add: foldl_year0_exact)
qed

subsection \<open>An empty return pool\<close>

lemma assets_loop_empty_pool:
  assumes "year \<noteq> 0"
    and "\<forall>aw\<in>set assets. \<exists>pool. yr (fst aw) = Some pool"
    and "\<exists>aw\<in>set assets. yr (fst aw) = Some []"
  shows "assets_loop cfg yr rng year assets (pv, vta, k) = Inl IndexError"
  using assms(2,3)
proof (induction assets arbitrary: vta k)
  case Nil
  then show ?case by simp
next
  case (Cons aw rest)
  obtain asset weight where aw: "aw = (asset, weight)" by (cases aw)
  from Cons.prems(1) aw obtain pool where pool: "yr asset = Some pool" by auto
  show ?case
  proof (cases "pool = []")
    case True
    with pool aw assms(1) show ?thesis by (simp add: random_choice_def)
  next
    case False
    with Cons.prems(2) aw pool have "\<exists>aw\<in>set rest. yr (fst aw) = Some []" by auto
    moreover from Cons.prems(1) have "\<forall>aw\<in>set rest. \<exists>pool. yr (fst aw) = Some pool" by simp
    ultimately have "\<And>vta k. assets_loop cfg yr rng year rest (pv, vta, k) = Inl IndexError"
      using Cons.IH by blast
    with pool aw assms(1) False show ?thesis by (simp add: random_choice_def)
  qed
qed

lemma years_loop_year0_only:
  assumes "n \<le> 1"
  shows "\<exists>st'. years_loop cfg yr rng n 0 (pv, sim, k) = Inr st'"
proof (cases n)
  case 0
  then show ?thesis by simp
next
  case (Suc n')
  with assms have "n' = 0" by simp
  with Suc show ?thesis by (simp add: assets_loop_year0 Let_def)
qed

lemma trials_loop_no_draw:
  assumes "YEARS_TO_SIMULATE cfg \<le> 0"
  shows "\<exists>st'. trials_loop cfg yr rng n (data, k) = Inr st'"
proof (induction n arbitrary: data k)
  case 0
  then show ?case by simp
next
  case (Suc n)
  from assms have "nat (YEARS_TO_SIMULATE cfg + 1) \<le> 1" by simp
  from years_loop_year0_only [OF this] obtain pv sim k1 where
    "years_loop cfg yr rng (nat (YEARS_TO_SIMULATE cfg + 1)) 0 (0, [], k) = Inr (pv, sim, k1)"
    by (metis prod_cases3)
  with Suc.IH show ?case by simp
qed

text \<open>
  C8, as the code has it. Let every asset of the portfolio have a pool and one of the
  pools be empty. A run of at least one trial and at least one year fails with
  \<^verbatim>\<open>IndexError\<close>, raised by \<^verbatim>\<open>random.choice\<close> in year 1 of the first trial; no
  trajectory has been appended by then, so the matrix \<^verbatim>\<open>data\<close> is empty at the failure.
  A run of no trial or of no year draws nothing and ends without a failure.
\<close>

theorem simulate_empty_pool:
  assumes "\<forall>aw\<in>set (PORTFOLIO cfg). \<exists>pool. yearly_returns (fst aw) = Some pool"
    and "\<exists>aw\<in>set (PORTFOLIO cfg). yearly_returns (fst aw) = Some []"
  shows "(1 \<le> TRIALS cfg \<and> 1 \<le> YEARS_TO_SIMULATE cfg \<longrightarrow>
            simulate cfg yearly_returns rng = Inl (IndexError, []))
       \<and> (TRIALS cfg \<le> 0 \<or> YEARS_TO_SIMULATE cfg \<le> 0 \<longrightarrow>
            (\<exists>data k. simulate cfg yearly_returns rng = Inr (data, k)))"
proof (intro conjI impI)
  assume "1 \<le> TRIALS cfg \<and> 1 \<le> YEARS_TO_SIMULATE cfg"
  then have n: "nat (TRIALS cfg) = Suc (nat (TRIALS cfg - 1))"
    and y: "nat (YEARS_TO_SIMULATE cfg + 1) = Suc (Suc (nat (YEARS_TO_SIMULATE cfg - 1)))"
    by auto
  have "assets_loop cfg yearly_returns rng (Suc 0) (PORTFOLIO cfg) (pv, 0, 0) = Inl IndexError"
    for pv
    by (rule assets_loop_empty_pool [OF _ assms]) simp
  then have "years_loop cfg yearly_returns rng (Suc (Suc (nat (YEARS_TO_SIMULATE cfg - 1)))) 0
               (0, [], 0) = Inl IndexError"
    by (simp add: assets_loop_year0 Let_def)
  then show "simulate cfg yearly_returns rng = Inl (IndexError, [])"
    by (simp add: simulate_def n y)
next
  assume "TRIALS cfg \<le> 0 \<or> YEARS_TO_SIMULATE cfg \<le> 0"
  then show "\<exists>data k. simulate cfg yearly_returns rng = Inr (data, k)"
  proof
    assume "TRIALS cfg \<le> 0"
    then show ?thesis by (simp add: simulate_def)
  next
    assume "YEARS_TO_SIMULATE cfg \<le> 0"
    from trials_loop_no_draw [OF this, of yearly_returns rng "nat (TRIALS cfg)" "[]" 0]
    show ?thesis by (auto simp: simulate_def)
  qed
qed

theorem simulate_empty_pool_witness:
  "simulate example_config example_empty_pool example_rng = Inl (IndexError, [])
   \<and> (\<exists>data k. simulate (example_config\<lparr>YEARS_TO_SIMULATE := 0\<rparr>) example_empty_pool example_rng
                  = Inr (data, k))"
proof -
  have a: "simulate example_config example_empty_pool example_rng = Inl (IndexError, [])"
    using simulate_empty_pool [of example_config example_empty_pool example_rng]
    by (simp add: example_config_def example_empty_pool_def)
  have b: "\<exists>data k. simulate (example_config\<lparr>YEARS_TO_SIMULATE := 0\<rparr>) example_empty_pool example_rng
                  = Inr (data, k)"
    using simulate_empty_pool
      [of "example_config\<lparr>YEARS_TO_SIMULATE := 0\<rparr>" example_empty_pool example_rng]
    by (simp add: example_config_def example_empty_pool_def)
  from a b show ?thesis by simp
qed

text \<open>
  C8, as the specification has it, fails: with \<open>YEARS_TO_SIMULATE = 0\<close> the run with
  an empty pool ends and returns its matrix, and the failure of a longer run is not
  of the class \<^verbatim>\<open>EmptyReturnPoolError\<close>.
\<close>

theorem simulate_empty_pool_counterexample:
  "simulate (example_config\<lparr>YEARS_TO_SIMULATE := 0\<rparr>) example_empty_pool example_rng
     = Inr ([[100], [100]], 0)
   \<and> simulate example_config example_empty_pool example_rng
       \<noteq> Inl (UserDefined ''EmptyReturnPoolError'', [])"
proof -
  have "simulate (example_config\<lparr>YEARS_TO_SIMULATE := 0\<rparr>) example_empty_pool example_rng
     = Inr ([[100], [100]], 0)"
    by code_simp
  moreover have "simulate example_config example_empty_pool example_rng = Inl (IndexError, [])"
    by code_simp
  ultimately show ?thesis by simp
qed

section \<open>Properties of the reporting\<close>

lemma final_growths_map:
  fixes cfg :: "'a::field config"
  assumes "INITIAL_INVESTMENT cfg \<noteq> 0" and "[] \<notin> set data"
  shows "final_growths cfg data =
           Inr (map (\<lambda>sim_data. last sim_data / INITIAL_INVESTMENT cfg * 100 - 100) data)"
  using assms by (induction data) auto

lemma simulate_rows:
  assumes "simulate cfg yr rng = Inr (data, k_end)"
  shows "length data = nat (TRIALS cfg) \<and>
         (\<forall>sim\<in>set data. length sim = nat (YEARS_TO_SIMULATE cfg + 1))"
proof -
  from assms have "trials_loop cfg yr rng (nat (TRIALS cfg)) ([], 0) = Inr (data, k_end)"
    by (simp add: simulate_def)
  from trials_loop_shape [OF this] show ?thesis by auto
qed

text \<open>
  C4. In exact arithmetic: for the matrix of a run that ends, with \<open>TRIALS\<close> and
  \<open>YEARS_TO_SIMULATE\<close> not negative and an initial investment that is not zero, line
  190 yields a list of \<open>TRIALS\<close> growths, and the growth of trial \<open>t\<close> is
  \<open>(last_value / INITIAL_INVESTMENT - 1) * 100\<close> for the value \<open>last_value\<close> of the final
  year of its trajectory.
\<close>

theorem final_growths_distribution:
  fixes cfg :: "'a::field config"
  assumes "simulate cfg yearly_returns rng = Inr (data, k_end)"
    and "0 \<le> TRIALS cfg" and "0 \<le> YEARS_TO_SIMULATE cfg" and "INITIAL_INVESTMENT cfg \<noteq> 0"
  shows "\<exists>growths. final_growths cfg data = Inr growths \<and>
           int (length growths) = TRIALS cfg \<and>
           (\<forall>t<length data.
              growths ! t = (data ! t ! nat (YEARS_TO_SIMULATE cfg) / INITIAL_INVESTMENT cfg - 1) * 100)"
proof -
  from simulate_rows [OF assms(1)] have
    n: "length data = nat (TRIALS cfg)"
    and rows: "\<forall>sim\<in>set data. length sim = nat (YEARS_TO_SIMULATE cfg + 1)"
    by simp_all
  from rows assms(3) have ne: "[] \<notin> set data" by auto
  let ?g = "map (\<lambda>sim_data. last sim_data / INITIAL_INVESTMENT cfg * 100 - 100) data"
  have fg: "final_growths cfg data = Inr ?g"
    by (rule final_growths_map [OF assms(4) ne])
  have "\<forall>t<length data.
          ?g ! t = (data ! t ! nat (YEARS_TO_SIMULATE cfg) / INITIAL_INVESTMENT cfg - 1) * 100"
  proof (intro allI impI)
    fix t assume t: "t < length data"
    then have len: "length (data ! t) = Suc (nat (YEARS_TO_SIMULATE cfg))"
      using rows assms(3) by (simp add: nat_add_distrib)
    then have "last (data ! t) = data ! t ! nat (YEARS_TO_SIMULATE cfg)"
      by (metis diff_Suc_1 last_conv_nth length_0_conv nat.distinct(1))
    then show "?g ! t = (data ! t ! nat (YEARS_TO_SIMULATE cfg) / INITIAL_INVESTMENT cfg - 1) * 100"
      using t by (simp add: algebra_simps)
  qed
  with fg n assms(2) show ?thesis by auto
qed

theorem final_growths_distribution_witness:
  "simulate example_config example_returns example_rng
     = Inr ([[100, 130, 156], [100, 130, 156]], 8)
   \<and> final_growths example_config [[100, 130, 156], [100, 130, 156]] = Inr [56, 56]
   \<and> int (length [56, 56 :: real]) = TRIALS example_config
   \<and> [56, 56 :: real] ! 1 = ((156 :: real) / INITIAL_INVESTMENT example_config - 1) * 100"
proof -
  have fg: "final_growths example_config [[100, 130, 156], [100, 130, 156]] = Inr [56, 56]"
    by code_simp
  show ?thesis
    using final_growths_distribution [OF example_simulate] example_simulate fg
    by (simp add: example_config_def)
qed

text \<open>
  C10. For a matrix of trajectories none of which is empty, an initial investment
  that is not zero and \<open>YEARS_TO_SIMULATE\<close> not negative, the reported probability is
  the percentage of the trials whose final growth in percent is strictly above
  \<open>INITIAL_INVESTMENT * (1 + BENCHMARK_ANNUAL_RETURN) ^ YEARS_TO_SIMULATE\<close>, the future
  value of the benchmark in money; it is \<open>growth_probability\<close> of the final growths
  with that value as the lower bound and no upper bound.
\<close>

theorem outperformance_probability_benchmark:
  fixes cfg :: "'a::{ord,field} config"
  assumes "0 \<le> YEARS_TO_SIMULATE cfg" and "INITIAL_INVESTMENT cfg \<noteq> 0"
    and "data \<noteq> []" and "[] \<notin> set data"
  shows "outperformance_probability cfg data =
           Inr (of_nat (length (filter
                  (\<lambda>sim_data. last sim_data / INITIAL_INVESTMENT cfg * 100 - 100
                      > INITIAL_INVESTMENT cfg
                          * (1 + BENCHMARK_ANNUAL_RETURN cfg) ^ nat (YEARS_TO_SIMULATE cfg)) data))
                / of_nat (length data) * 100)
       \<and> outperformance_probability cfg data =
           (case final_growths cfg data of
              Inl e \<Rightarrow> Inl e
            | Inr growths \<Rightarrow>
                growth_probability growths
                  (Some (INITIAL_INVESTMENT cfg
                     * (1 + BENCHMARK_ANNUAL_RETURN cfg) ^ nat (YEARS_TO_SIMULATE cfg))) None)"
proof -
  have b: "benchmark_future_value cfg =
             Inr (INITIAL_INVESTMENT cfg
                    * (1 + BENCHMARK_ANNUAL_RETURN cfg) ^ nat (YEARS_TO_SIMULATE cfg))"
    using assms(1) by (simp add: benchmark_future_value_def power_int_def)
  have fg: "final_growths cfg data =
              Inr (map (\<lambda>sim_data. last sim_data / INITIAL_INVESTMENT cfg * 100 - 100) data)"
    by (rule final_growths_map [OF assms(2,4)])
  show ?thesis
    using assms(3)
    by (simp add: outperformance_probability_def b fg growth_probability_def
        count_above_filter filter_map comp_def)
qed

theorem outperformance_probability_benchmark_witness:
  "outperformance_probability example_config [[100, 130, 156], [100, 130, 110]] = Inr 0
   \<and> outperformance_probability (example_config\<lparr>INITIAL_INVESTMENT := 40\<rparr>)
        [[40, 50, 62], [40, 50, 45]] = Inr 50"
proof -
  have "outperformance_probability example_config [[100, 130, 156], [100, 130, 110]] = Inr 0"
    using outperformance_probability_benchmark
      [of example_config "[[100, 130, 156], [100, 130, 110]]"]
    by (simp add: example_config_def power2_eq_square)
  moreover have "outperformance_probability (example_config\<lparr>INITIAL_INVESTMENT := 40\<rparr>)
        [[40, 50, 62], [40, 50, 45]] = Inr 50"
    using outperformance_probability_benchmark
      [of "example_config\<lparr>INITIAL_INVESTMENT := 40\<rparr>" "[[40, 50, 62], [40, 50, 45]]"]
    by (simp add: example_config_def power2_eq_square)
  ultimately show ?thesis by simp
qed

section \<open>Properties of \<^verbatim>\<open>get_yearly_returns\<close>\<close>

lemma length_pct_change_from: "length (pct_change_from prev ps) = length ps"
  by (induction ps arbitrary: prev) simp_all

lemma pct_change_from_nth:
  assumes "i < length ps"
  shows "pct_change_from prev ps ! i =
           (if (prev # ps) ! i = 0 then None
            else Some ((prev # ps) ! Suc i / (prev # ps) ! i - 1))"
  using assms
proof (induction ps arbitrary: prev i)
  case Nil
  then show ?case by simp
next
  case (Cons p ps)
  show ?case
  proof (cases i)
    case 0
    then show ?thesis by simp
  next
    case (Suc j)
    with Cons.prems have "j < length ps" by simp
    from Cons.IH [OF this, of p] Suc show ?thesis by simp
  qed
qed

text \<open>
  C7, as the code has it. With no price the call fails with \<^verbatim>\<open>IndexError\<close>, raised
  by \<^verbatim>\<open>pop\<close>. With one price it returns the empty list and does not fail. With at
  least one price it returns one entry less than there are prices, and entry \<open>i\<close> is,
  in exact arithmetic and for a price \<open>closes ! i\<close> that is not zero, the fractional
  return \<open>(closes ! (i + 1) - closes ! i) / closes ! i\<close>, in the order of the prices.
\<close>

theorem get_yearly_returns_series:
  fixes closes :: "'a::field list"
  shows "get_yearly_returns ([] :: 'a list) = Inl IndexError
       \<and> get_yearly_returns [p :: 'a] = Inr []
       \<and> (closes \<noteq> [] \<longrightarrow>
            (\<exists>returns. get_yearly_returns closes = Inr returns \<and>
               length returns = length closes - 1 \<and>
               (\<forall>i<length closes - 1. closes ! i \<noteq> 0 \<longrightarrow>
                  returns ! i = Some ((closes ! Suc i - closes ! i) / closes ! i))))"
proof (intro conjI impI)
  show "get_yearly_returns ([] :: 'a list) = Inl IndexError"
    by (simp add: get_yearly_returns_def pct_change_def pop0_def)
  show "get_yearly_returns [p] = Inr []"
    by (simp add: get_yearly_returns_def pct_change_def pop0_def)
next
  assume "closes \<noteq> []"
  then obtain p0 ps where closes: "closes = p0 # ps" by (cases closes) simp_all
  have g: "get_yearly_returns closes = Inr (pct_change_from p0 ps)"
    by (simp add: closes get_yearly_returns_def pct_change_def pop0_def)
  have "\<forall>i<length closes - 1. closes ! i \<noteq> 0 \<longrightarrow>
          pct_change_from p0 ps ! i = Some ((closes ! Suc i - closes ! i) / closes ! i)"
  proof (intro allI impI)
    fix i assume i: "i < length closes - 1" and nz: "closes ! i \<noteq> 0"
    from i closes have "i < length ps" by simp
    from pct_change_from_nth [OF this, of p0] nz closes
    show "pct_change_from p0 ps ! i = Some ((closes ! Suc i - closes ! i) / closes ! i)"
      by (simp add: diff_divide_distrib)
  qed
  with g closes show "\<exists>returns. get_yearly_returns closes = Inr returns \<and>
               length returns = length closes - 1 \<and>
               (\<forall>i<length closes - 1. closes ! i \<noteq> 0 \<longrightarrow>
                  returns ! i = Some ((closes ! Suc i - closes ! i) / closes ! i))"
    by (simp add: length_pct_change_from)
qed

theorem get_yearly_returns_series_witness:
  "get_yearly_returns [100, 110, 99 :: real] = Inr [Some (1/10), Some (-1/10)]
   \<and> (\<exists>returns. get_yearly_returns [100, 110, 99 :: real] = Inr returns \<and>
         length returns = 2 \<and>
         returns ! 0 = Some ((110 - 100) / 100) \<and> returns ! 1 = Some ((99 - 110) / 110))"
proof -
  have "get_yearly_returns [100, 110, 99 :: real] = Inr [Some (1/10), Some (-1/10)]"
    by (simp add: get_yearly_returns_def pct_change_def pop0_def)
  then show ?thesis
    using get_yearly_returns_series [of 0 "[100, 110, 99 :: real]"]
    by simp
qed

text \<open>
  C7, as the specification has it, fails: one price is fewer than two, and the call
  returns.
\<close>

theorem get_yearly_returns_series_counterexample:
  "get_yearly_returns [100 :: real] = Inr []"
  by (simp add: get_yearly_returns_def pct_change_def pop0_def)

end
